theory Spec2Isabelle
  imports Main
begin

section \<open>Strings of the source\<close>

text \<open>
  A Python \<open>str\<close> is modelled as a \<open>string\<close>, one \<open>char\<close> per code point, for
  text whose code points are below 256. On that range the pattern class \<open>\d\<close> of the
  module \<open>re\<close> is the ten ASCII digits.
\<close>

definition re_digit :: "char \<Rightarrow> bool" where
  "re_digit c \<longleftrightarrow> c \<in> set ''0123456789''"

text \<open>\<open>s.startswith(p)\<close>\<close>

definition startswith :: "string \<Rightarrow> string \<Rightarrow> bool" where
  "startswith s p \<longleftrightarrow> take (length p) s = p"

section \<open>utils/helpers.py: clean_phone_number\<close>

text \<open>
  \<open>re.sub(r'[^\d+]', '', phone)\<close> keeps the digits and every \<open>+\<close>, wherever it stands.
\<close>

definition strip_non_phone :: "string \<Rightarrow> string" where
  "strip_non_phone phone = filter (\<lambda>c. re_digit c \<or> c = CHR ''+'') phone"

text \<open>The chain of \<open>if\<close>/\<open>elif\<close> on the Indonesian number formats; the first branch that holds wins.\<close>

definition indonesian_format :: "string \<Rightarrow> string" where
  "indonesian_format cleaned =
     (if startswith cleaned ''08'' then ''+62'' @ drop 1 cleaned
      else if startswith cleaned ''62'' \<and> \<not> startswith cleaned ''+62'' then ''+'' @ cleaned
      else if startswith cleaned ''8'' \<and> 9 \<le> length cleaned then ''+62'' @ cleaned
      else if \<not> startswith cleaned ''+'' \<and> 10 \<le> length cleaned then ''+62'' @ cleaned
      else cleaned)"

text \<open>
  The body of the \<open>try\<close> block applies only operations that are defined on every \<open>str\<close>
  (\<open>re.sub\<close>, \<open>startswith\<close>, slicing, \<open>len\<close>), so its \<open>except\<close> branch is never
  taken for a string argument and the function is a total function to \<open>Optional[str]\<close>.
\<close>

definition clean_phone_number :: "string \<Rightarrow> string option" where
  "clean_phone_number phone =
     (if phone = [] then None
      else
        let cleaned = indonesian_format (strip_non_phone phone)
        in if startswith cleaned ''+62'' \<and> 12 \<le> length cleaned \<and> length cleaned \<le> 15
           then Some cleaned else None)"

section \<open>Character classes of Python strings\<close>

text \<open>
  \<open>str.isdigit\<close>, \<open>str.lower\<close> and the whitespace of \<open>str.strip\<close>, on code points
  below 256: besides the ASCII digits, the superscripts at 178, 179 and 185 count as
  digits for \<open>isdigit\<close> (not for \<open>\d\<close>); the capital letters are 65 to 90 and
  192 to 222 without 215, each 32 below its small letter.
\<close>

definition py_isdigit :: "char \<Rightarrow> bool" where
  "py_isdigit c \<longleftrightarrow> re_digit c \<or> (of_char c :: nat) \<in> {178, 179, 185}"

definition py_lower_char :: "char \<Rightarrow> char" where
  "py_lower_char c =
     (let n = (of_char c :: nat)
      in if (65 \<le> n \<and> n \<le> 90) \<or> (192 \<le> n \<and> n \<le> 222 \<and> n \<noteq> 215)
         then char_of (n + 32) else c)"

definition lower :: "string \<Rightarrow> string" where
  "lower s = map py_lower_char s"

definition py_isspace :: "char \<Rightarrow> bool" where
  "py_isspace c \<longleftrightarrow> (of_char c :: nat) \<in> {9, 10, 11, 12, 13, 28, 29, 30, 31, 32, 133, 160}"

text \<open>\<open>s.strip()\<close>\<close>

definition strip :: "string \<Rightarrow> string" where
  "strip s = rev (dropWhile py_isspace (rev (dropWhile py_isspace s)))"

text \<open>\<open>sub in s\<close>, the substring test\<close>

fun contains :: "string \<Rightarrow> string \<Rightarrow> bool" where
  "contains [] sub \<longleftrightarrow> sub = []"
| "contains (c # cs) sub \<longleftrightarrow> startswith (c # cs) sub \<or> contains cs sub"

text \<open>\<open>s.replace(old, new)\<close> for a non-empty \<open>old\<close>: occurrences are replaced from the left, without overlap.\<close>

fun replace :: "string \<Rightarrow> string \<Rightarrow> string \<Rightarrow> string" where
  "replace old new [] = []"
| "replace old new (c # cs) =
     (if old \<noteq> [] \<and> startswith (c # cs) old
      then new @ replace old new (drop (length old - 1) cs)
      else c # replace old new cs)"

section \<open>utils/database.py: classification of a contact string\<close>

definition determine_contact_type :: "string \<Rightarrow> string" where
  "determine_contact_type contact =
     (let contact_lower = lower contact
      in if contains contact_lower ''whatsapp'' \<or> contains contact_lower ''wa.'' then ''whatsapp''
         else if CHR ''@'' \<in> set contact then ''email''
         else if list_ex py_isdigit contact then ''phone''
         else if list_ex (\<lambda>platform. contains contact_lower platform)
                   [''instagram'', ''facebook'', ''tiktok'', ''youtube'']
           then ''social''
         else ''other'')"

text \<open>The loop over the prefixes returns at the first prefix that the lower-cased contact starts with.\<close>

fun strip_prefix :: "string list \<Rightarrow> string \<Rightarrow> string" where
  "strip_prefix [] contact = strip contact"
| "strip_prefix (prefix # rest) contact =
     (if startswith (lower contact) prefix then strip (drop (length prefix) contact)
      else strip_prefix rest contact)"

definition extract_contact_value :: "string \<Rightarrow> string" where
  "extract_contact_value contact =
     strip_prefix [''phone:'', ''email:'', ''whatsapp:'', ''wa:'', ''social:''] contact"

section \<open>utils/database.py: the store\<close>

text \<open>
  The tables \<open>brands\<close> and \<open>contacts\<close> as lists of rows in rowid order. The columns that
  \<open>save_brand\<close> neither reads nor sets to a given value are left out (\<open>social_media\<close>,
  \<open>notes\<close>, \<open>is_active\<close>, \<open>is_primary\<close>, \<open>is_verified\<close> and the timestamps). The
  column \<open>contacts\<close> of a brand holds \<open>json.dumps\<close> of a list of strings, modelled as
  that list. Both keys are \<open>INTEGER PRIMARY KEY AUTOINCREMENT\<close>: the sequence value is the
  largest rowid the table ever had.
\<close>

record brand_row =
  b_id :: int
  b_name :: string
  b_website :: string
  b_category :: string
  b_location :: string
  b_business_type :: string
  b_contacts :: "string list"
  b_description :: string

record contact_row =
  c_id :: int
  c_brand_id :: int
  c_type :: string
  c_value :: string

record database =
  brands :: "brand_row list"
  brands_seq :: int
  contacts :: "contact_row list"
  contacts_seq :: int

definition empty_database :: database where
  "empty_database = \<lparr>brands = [], brands_seq = 0, contacts = [], contacts_seq = 0\<rparr>"

text \<open>
  The argument \<open>brand_data\<close> is a dictionary; the keys that \<open>save_brand\<close> reads are the
  fields, \<open>None\<close> for a key that is absent.
\<close>

record brand_data =
  d_name :: "string option"
  d_website :: "string option"
  d_category :: "string option"
  d_location :: "string option"
  d_business_type :: "string option"
  d_contacts :: "string list option"
  d_description :: "string option"

text \<open>\<open>brand_data.get(key, default)\<close>\<close>

definition dict_get :: "'a option \<Rightarrow> 'a \<Rightarrow> 'a" where
  "dict_get v dflt = (case v of None \<Rightarrow> dflt | Some x \<Rightarrow> x)"

text \<open>
  A storage fault is an exception \<open>sqlite3.Error\<close> raised by one of the calls on the
  connection or the cursor. Which calls fail is an input of the model: \<open>Some msg\<close> for a
  call that raises with that message. A call that raises changes nothing.
\<close>

datatype storage_op =
  Connect | SelectBrand | UpdateBrand | InsertBrand | DeleteContacts | InsertContact nat | Commit

type_synonym faults = "storage_op \<Rightarrow> string option"

definition no_fault :: faults where
  "no_fault op = None"

datatype exn = SqliteError string | NumberParseException | EmailNotValidError | OtherException

datatype log_record = LogInfo string | LogError string

text \<open>The rowid that AUTOINCREMENT gives the next row.\<close>

definition next_rowid :: "int \<Rightarrow> int list \<Rightarrow> int" where
  "next_rowid seq ids = 1 + foldr max ids seq"

text \<open>\<open>SELECT id FROM brands WHERE name = ? OR website = ?\<close>, and \<open>fetchone\<close>\<close>

definition select_brand :: "string \<Rightarrow> string \<Rightarrow> database \<Rightarrow> int list" where
  "select_brand n w db = map b_id (filter (\<lambda>r. b_name r = n \<or> b_website r = w) (brands db))"

definition fetchone :: "'a list \<Rightarrow> 'a option" where
  "fetchone rows = (case rows of [] \<Rightarrow> None | r # _ \<Rightarrow> Some r)"

text \<open>The lookup of \<open>save_brand\<close>: the identifier of the first row selected, if any.\<close>

definition find_existing :: "brand_data \<Rightarrow> database \<Rightarrow> int option" where
  "find_existing bd db =
     fetchone (select_brand (dict_get (d_name bd) '''') (dict_get (d_website bd) '''') db)"

text \<open>\<open>UPDATE brands SET website = ?, category = ?, ... WHERE id = ?\<close>\<close>

definition update_brand :: "int \<Rightarrow> brand_data \<Rightarrow> database \<Rightarrow> database" where
  "update_brand brand_id bd db =
     db\<lparr>brands :=
          map (\<lambda>r. if b_id r = brand_id
                    then r\<lparr>b_website := dict_get (d_website bd) '''',
                           b_category := dict_get (d_category bd) '''',
                           b_location := dict_get (d_location bd) '''',
                           b_business_type := dict_get (d_business_type bd) '''',
                           b_contacts := dict_get (d_contacts bd) [],
                           b_description := dict_get (d_description bd) ''''\<rparr>
                    else r)
            (brands db)\<rparr>"

text \<open>\<open>INSERT INTO brands (...) VALUES (...)\<close>, with \<open>cursor.lastrowid\<close>\<close>

definition insert_brand :: "brand_data \<Rightarrow> database \<Rightarrow> database \<times> int" where
  "insert_brand bd db =
     (let new_id = next_rowid (brands_seq db) (map b_id (brands db))
      in (db\<lparr>brands := brands db @
               [\<lparr>b_id = new_id,
                 b_name = dict_get (d_name bd) ''Unknown'',
                 b_website = dict_get (d_website bd) '''',
                 b_category = dict_get (d_category bd) '''',
                 b_location = dict_get (d_location bd) '''',
                 b_business_type = dict_get (d_business_type bd) '''',
                 b_contacts = dict_get (d_contacts bd) [],
                 b_description = dict_get (d_description bd) ''''\<rparr>],
             brands_seq := new_id\<rparr>, new_id))"

text \<open>\<open>DELETE FROM contacts WHERE brand_id = ?\<close>\<close>

definition delete_contacts :: "int \<Rightarrow> database \<Rightarrow> database" where
  "delete_contacts brand_id db =
     db\<lparr>contacts := filter (\<lambda>c. c_brand_id c \<noteq> brand_id) (contacts db)\<rparr>"

text \<open>\<open>INSERT INTO contacts (brand_id, contact_type, contact_value) VALUES (?, ?, ?)\<close>\<close>

definition insert_contact :: "int \<Rightarrow> string \<Rightarrow> string \<Rightarrow> database \<Rightarrow> database" where
  "insert_contact brand_id contact_type contact_value db =
     (let new_id = next_rowid (contacts_seq db) (map c_id (contacts db))
      in db\<lparr>contacts := contacts db @
              [\<lparr>c_id = new_id, c_brand_id = brand_id,
                c_type = contact_type, c_value = contact_value\<rparr>],
            contacts_seq := new_id\<rparr>)"

section \<open>utils/database.py: \_save\_contacts and save\_brand\<close>

text \<open>
  The \<open>for\<close> loop of \<open>_save_contacts\<close>; \<open>k\<close> is the index of the contact in the batch.
  An exception leaves the loop with the rows written so far.
\<close>

fun insert_contacts :: "faults \<Rightarrow> int \<Rightarrow> nat \<Rightarrow> string list \<Rightarrow> database \<Rightarrow> database \<times> (exn + unit)" where
  "insert_contacts f brand_id k [] db = (db, Inr ())"
| "insert_contacts f brand_id k (contact # rest) db =
     (let contact_type = determine_contact_type contact;
          contact_value = extract_contact_value contact
      in if contact_value \<noteq> []
         then (case f (InsertContact k) of
                 Some msg \<Rightarrow> (db, Inl (SqliteError msg))
               | None \<Rightarrow> insert_contacts f brand_id (Suc k) rest
                           (insert_contact brand_id contact_type contact_value db))
         else insert_contacts f brand_id (Suc k) rest db)"

text \<open>The \<open>try\<close> block of \<open>_save_contacts\<close>: the delete, then the loop.\<close>

definition save_contacts_try :: "faults \<Rightarrow> int \<Rightarrow> string list \<Rightarrow> database \<Rightarrow> database \<times> (exn + unit)" where
  "save_contacts_try f brand_id cs db =
     (case f DeleteContacts of
        Some msg \<Rightarrow> (db, Inl (SqliteError msg))
      | None \<Rightarrow> insert_contacts f brand_id 0 cs (delete_contacts brand_id db))"

text \<open>The text of an exception in an f-string.\<close>

fun exn_text :: "exn \<Rightarrow> string" where
  "exn_text (SqliteError msg) = msg"
| "exn_text NumberParseException = ''NumberParseException''"
| "exn_text EmailNotValidError = ''EmailNotValidError''"
| "exn_text OtherException = ''Exception''"

text \<open>\<open>_save_contacts\<close> catches every exception of its body, logs it and returns.\<close>

definition save_contacts :: "faults \<Rightarrow> int \<Rightarrow> string list \<Rightarrow> database \<times> log_record list \<Rightarrow> database \<times> log_record list" where
  "save_contacts f brand_id cs st =
     (case save_contacts_try f brand_id cs (fst st) of
        (db', Inr _) \<Rightarrow> (db', snd st)
      | (db', Inl e) \<Rightarrow> (db', snd st @ [LogError (''Error saving contacts: '' @ exn_text e)]))"

text \<open>\<open>brand_data.get('name')\<close> in an f-string: \<open>None\<close> is printed for an absent key.\<close>

definition name_text :: "brand_data \<Rightarrow> string" where
  "name_text bd = (case d_name bd of None \<Rightarrow> ''None'' | Some n \<Rightarrow> n)"

text \<open>
  The write of the entity: the update of the row found, or the insert of a new row. The
  result is the store, the identifier and the line logged.
\<close>

definition write_brand :: "faults \<Rightarrow> brand_data \<Rightarrow> int option \<Rightarrow> database \<Rightarrow> exn + database \<times> int \<times> log_record" where
  "write_brand f bd existing db =
     (case existing of
        Some brand_id \<Rightarrow>
          (case f UpdateBrand of
             Some msg \<Rightarrow> Inl (SqliteError msg)
           | None \<Rightarrow> Inr (update_brand brand_id bd db, brand_id,
                          LogInfo (''Updated existing brand: '' @ name_text bd)))
      | None \<Rightarrow>
          (case f InsertBrand of
             Some msg \<Rightarrow> Inl (SqliteError msg)
           | None \<Rightarrow> (let (db', brand_id) = insert_brand bd db
                      in Inr (db', brand_id, LogInfo (''Saved new brand: '' @ name_text bd)))))"

text \<open>
  The \<open>try\<close> block of \<open>save_brand\<close>. The log lines written before an exception stay; the
  store reached is returned only after the commit.
\<close>

definition save_brand_try :: "faults \<Rightarrow> brand_data \<Rightarrow> database \<Rightarrow> log_record list \<Rightarrow> log_record list \<times> (exn + database \<times> int)" where
  "save_brand_try f bd db lg =
     (case f Connect of
        Some msg \<Rightarrow> (lg, Inl (SqliteError msg))
      | None \<Rightarrow>
     (case f SelectBrand of
        Some msg \<Rightarrow> (lg, Inl (SqliteError msg))
      | None \<Rightarrow>
     (let existing = find_existing bd db
      in case write_brand f bd existing db of
           Inl e \<Rightarrow> (lg, Inl e)
         | Inr (db1, brand_id, line) \<Rightarrow>
             (let st = save_contacts f brand_id (dict_get (d_contacts bd) []) (db1, lg @ [line])
              in case f Commit of
                   Some msg \<Rightarrow> (snd st, Inl (SqliteError msg))
                 | None \<Rightarrow> (snd st, Inr (fst st, brand_id))))))"

text \<open>
  \<open>save_brand\<close>: an exception of the block leaves the connection's \<open>with\<close> statement,
  which rolls the transaction back, and is caught by \<open>except Exception\<close>, which logs it
  and returns 0. The result is the store, the log and what the call gives its caller:
  \<open>Inr\<close> a returned integer, \<open>Inl\<close> an exception that leaves the function.
\<close>

definition save_brand :: "faults \<Rightarrow> brand_data \<Rightarrow> database \<times> log_record list \<Rightarrow> (database \<times> log_record list) \<times> (exn + int)" where
  "save_brand f bd st =
     (case save_brand_try f bd (fst st) (snd st) of
        (lg, Inr (db', brand_id)) \<Rightarrow> ((db', lg), Inr brand_id)
      | (lg, Inl e) \<Rightarrow> ((fst st, lg @ [LogError (''Error saving brand data: '' @ exn_text e)]), Inr 0))"

text \<open>
  The rowids that AUTOINCREMENT gives start at 1: in a store written by \<open>save_brand\<close>
  alone, every brand has an identifier of at least 1.
\<close>

definition valid_ids :: "database \<Rightarrow> bool" where
  "valid_ids db \<longleftrightarrow> 0 \<le> brands_seq db \<and> list_all (\<lambda>r. 1 \<le> b_id r) (brands db)"

section \<open>utils/helpers.py: the validators\<close>

text \<open>
  The libraries \<open>phonenumbers\<close> and \<open>email_validator\<close> are not part of the repository:
  their functions are parameters, each giving a value or raising an exception.
  \<open>validate_phone_basic\<close> is the fallback after \<open>NumberParseException\<close>.
\<close>

definition validate_phone_basic :: "string \<Rightarrow> bool" where
  "validate_phone_basic cleaned =
     (if startswith cleaned ''+62''
      then (let digits_only = filter re_digit cleaned
            in 11 \<le> length digits_only \<and> length digits_only \<le> 15)
      else False)"

definition validate_phone_number_try ::
    "(string \<Rightarrow> string \<Rightarrow> exn + 'p) \<Rightarrow> ('p \<Rightarrow> exn + bool) \<Rightarrow> string \<Rightarrow> exn + bool" where
  "validate_phone_number_try parse is_valid_number phone =
     (if phone = [] then Inr False
      else case clean_phone_number phone of
             None \<Rightarrow> Inr False
           | Some cleaned \<Rightarrow>
               (if cleaned = [] then Inr False
                else case (case parse cleaned ''ID'' of
                             Inl e \<Rightarrow> Inl e
                           | Inr parsed \<Rightarrow> is_valid_number parsed) of
                       Inr valid \<Rightarrow> Inr valid
                     | Inl e \<Rightarrow> (if e = NumberParseException
                                 then Inr (validate_phone_basic cleaned)
                                 else Inl e)))"

text \<open>The outer \<open>except Exception\<close> logs and returns \<open>False\<close>.\<close>

definition validate_phone_number ::
    "(string \<Rightarrow> string \<Rightarrow> exn + 'p) \<Rightarrow> ('p \<Rightarrow> exn + bool) \<Rightarrow> string \<Rightarrow> exn + bool" where
  "validate_phone_number parse is_valid_number phone =
     (case validate_phone_number_try parse is_valid_number phone of
        Inl e \<Rightarrow> Inr False
      | Inr b \<Rightarrow> Inr b)"

text \<open>
  \<open>re.match(r'^[a-zA-Z0-9._%+-]+@[a-zA-Z0-9.-]+\.[a-zA-Z]{2,}$', email)\<close>. The first class
  has no \<open>@\<close>, so the local part is the text before the first \<open>@\<close>; the last class has
  no dot, so the dot of the pattern is the last dot; \<open>$\<close> also matches before a newline
  that ends the string.
\<close>

definition ascii_letter :: "char \<Rightarrow> bool" where
  "ascii_letter c \<longleftrightarrow> c \<in> set ''abcdefghijklmnopqrstuvwxyzABCDEFGHIJKLMNOPQRSTUVWXYZ''"

definition email_local_char :: "char \<Rightarrow> bool" where
  "email_local_char c \<longleftrightarrow> ascii_letter c \<or> re_digit c \<or> c \<in> set ''._%+-''"

definition email_domain_char :: "char \<Rightarrow> bool" where
  "email_domain_char c \<longleftrightarrow> ascii_letter c \<or> re_digit c \<or> c \<in> set ''.-''"

definition re_match_email :: "string \<Rightarrow> bool" where
  "re_match_email email =
     (let local_part = takeWhile (\<lambda>c. c \<noteq> CHR ''@'') email;
          after = drop (length local_part) email
      in local_part \<noteq> [] \<and> list_all email_local_char local_part \<and> after \<noteq> [] \<and>
         (let rest = tl after;
              core = (if rest \<noteq> [] \<and> last rest = CHR 0x0A then butlast rest else rest);
              tld = rev (takeWhile (\<lambda>c. c \<noteq> CHR ''.'') (rev core));
              domain_part = take (length core - length tld - 1) core
          in length tld < length core \<and> 2 \<le> length tld \<and> list_all ascii_letter tld
             \<and> domain_part \<noteq> [] \<and> list_all email_domain_char domain_part))"

definition validate_email_address_try :: "(string \<Rightarrow> exn + 'v) \<Rightarrow> string \<Rightarrow> exn + bool" where
  "validate_email_address_try validate_email email =
     (if email = [] then Inr False
      else if \<not> re_match_email email then Inr False
      else case validate_email email of
             Inr validated \<Rightarrow> Inr True
           | Inl e \<Rightarrow> (if e = EmailNotValidError then Inr False else Inl e))"

definition validate_email_address :: "(string \<Rightarrow> exn + 'v) \<Rightarrow> string \<Rightarrow> exn + bool" where
  "validate_email_address validate_email email =
     (case validate_email_address_try validate_email email of
        Inl e \<Rightarrow> Inr False
      | Inr b \<Rightarrow> Inr b)"

section \<open>agents/contact\_finder\_agent.py: grouping of the contacts found\<close>

text \<open>
  A dictionary made by \<open>_extract_all_contacts\<close>: its type is \<open>phone\<close> for a match of a
  phone pattern, \<open>whatsapp\<close> for a match of a WhatsApp pattern, \<open>email\<close>, or
  \<open>social_\<close> followed by the platform.
\<close>

record contact =
  ctype :: string
  cvalue :: string
  csource :: string
  craw :: string

record grouped_contacts =
  g_whatsapp :: "string list"
  g_phone :: "string list"
  g_email :: "string list"
  g_social :: "string list"

definition no_contacts :: grouped_contacts where
  "no_contacts = \<lparr>g_whatsapp = [], g_phone = [], g_email = [], g_social = []\<rparr>"

text \<open>The chain of \<open>if\<close>/\<open>elif\<close> that appends a value to its bucket.\<close>

definition add_to_bucket :: "string \<Rightarrow> string \<Rightarrow> grouped_contacts \<Rightarrow> grouped_contacts" where
  "add_to_bucket contact_type v g =
     (if contact_type = ''whatsapp'' \<or> (contact_type = ''phone'' \<and> startswith v ''+62'')
      then g\<lparr>g_whatsapp := g_whatsapp g @ [v]\<rparr>
      else if contact_type = ''phone'' then g\<lparr>g_phone := g_phone g @ [v]\<rparr>
      else if contact_type = ''email'' then g\<lparr>g_email := g_email g @ [v]\<rparr>
      else if startswith contact_type ''social_''
        then g\<lparr>g_social := g_social g @ [replace ''social_'' '''' contact_type @ '': '' @ v]\<rparr>
      else g)"

text \<open>The loop over \<open>all_contacts\<close>, with the set \<open>seen_values\<close>.\<close>

fun group_contacts :: "contact list \<Rightarrow> string set \<times> grouped_contacts \<Rightarrow> string set \<times> grouped_contacts" where
  "group_contacts [] st = st"
| "group_contacts (c # rest) st =
     (if cvalue c \<notin> fst st
      then group_contacts rest (insert (cvalue c) (fst st), add_to_bucket (ctype c) (cvalue c) (snd st))
      else group_contacts rest st)"

record contact_result =
  r_query :: string
  whatsapp_numbers :: "string list"
  phone_numbers :: "string list"
  email_addresses :: "string list"
  social_media :: "string list"
  total_contacts_found :: nat

text \<open>
  \<open>_parse_contact_results\<close>, from the list that \<open>_extract_all_contacts\<close> returned for
  the agent's text: a list with the one result, or the empty list when every bucket is
  empty.
\<close>

definition parse_contact_results :: "contact list \<Rightarrow> string \<Rightarrow> contact_result list" where
  "parse_contact_results all_contacts original_query =
     (let st = group_contacts all_contacts ({}, no_contacts);
          seen_values = fst st;
          grouped = snd st;
          result = \<lparr>r_query = original_query,
                    whatsapp_numbers = g_whatsapp grouped,
                    phone_numbers = g_phone grouped,
                    email_addresses = g_email grouped,
                    social_media = g_social grouped,
                    total_contacts_found = card seen_values\<rparr>
      in if g_whatsapp grouped \<noteq> [] \<or> g_phone grouped \<noteq> [] \<or> g_email grouped \<noteq> []
            \<or> g_social grouped \<noteq> []
         then [result] else [])"

section \<open>Inputs of the scenarios\<close>

definition acme_first :: brand_data where
  "acme_first = \<lparr>d_name = Some ''Acme'', d_website = Some ''acme.id'', d_category = None,
     d_location = None, d_business_type = None, d_contacts = Some [''a@acme.id''],
     d_description = None\<rparr>"

definition acme_second :: brand_data where
  "acme_second = \<lparr>d_name = Some ''Acme'', d_website = Some ''acme.id'',
     d_category = Some ''Skincare'', d_location = None, d_business_type = None,
     d_contacts = Some [''+6281111111111''], d_description = None\<rparr>"

definition acme_empty_category :: brand_data where
  "acme_empty_category = \<lparr>d_name = Some ''Acme'', d_website = Some ''acme.id'',
     d_category = Some '''', d_location = None, d_business_type = None,
     d_contacts = Some [''+6281111111111''], d_description = None\<rparr>"

definition name_only :: "string \<Rightarrow> brand_data" where
  "name_only n = \<lparr>d_name = Some n, d_website = None, d_category = None,
     d_location = None, d_business_type = None, d_contacts = None, d_description = None\<rparr>"

text \<open>A dictionary with none of the keys, as the contact search of the bot passes.\<close>

definition no_keys :: brand_data where
  "no_keys = \<lparr>d_name = None, d_website = None, d_category = None,
     d_location = None, d_business_type = None, d_contacts = None, d_description = None\<rparr>"

text \<open>The store after one call, started with an empty log and no storage fault.\<close>

definition saved :: "brand_data \<Rightarrow> database \<Rightarrow> database" where
  "saved bd db = fst (fst (save_brand no_fault bd (db, [])))"

text \<open>
  Contacts as \<open>_extract_all_contacts\<close> lists them, the matches of the phone patterns
  before those of the WhatsApp patterns.
\<close>

definition found_contacts :: "contact list" where
  "found_contacts =
     [\<lparr>ctype = ''phone'', cvalue = ''+6281234567890'', csource = '''', craw = ''0812-3456-7890''\<rparr>,
      \<lparr>ctype = ''phone'', cvalue = ''+14155552671'', csource = '''', craw = ''+14155552671''\<rparr>,
      \<lparr>ctype = ''whatsapp'', cvalue = ''+6281111111111'', csource = '''', craw = ''6281111111111''\<rparr>,
      \<lparr>ctype = ''whatsapp'', cvalue = ''+6281234567890'', csource = '''', craw = ''081234567890''\<rparr>]"

section \<open>Properties of clean_phone_number\<close>

lemma strip_non_phone_chars:
  "c \<in> set (strip_non_phone phone) \<Longrightarrow> re_digit c \<or> c = CHR ''+''"
  by (auto simp: strip_non_phone_def)

lemma strip_non_phone_fixed:
  "\<forall>c \<in> set s. re_digit c \<or> c = CHR ''+'' \<Longrightarrow> strip_non_phone s = s"
  by (simp add: strip_non_phone_def)

lemma indonesian_format_chars:
  assumes "\<forall>c \<in> set s. re_digit c \<or> c = CHR ''+''"
  shows "\<forall>c \<in> set (indonesian_format s). re_digit c \<or> c = CHR ''+''"
proof -
  have d: "re_digit CHR ''6''" "re_digit CHR ''2''"
    by (simp_all add: re_digit_def)
  have "set (drop 1 s) \<subseteq> set s"
    by (rule set_drop_subset)
  with assms d show ?thesis
    by (auto simp: indonesian_format_def)
qed

lemma plus_start_format:
  "startswith s ''+'' \<Longrightarrow> indonesian_format s = s"
  by (cases s) (auto simp: indonesian_format_def startswith_def)

lemma clean_phone_number_Some:
  assumes "clean_phone_number x = Some c"
  shows "c = indonesian_format (strip_non_phone x)"
    and "startswith c ''+62''" and "12 \<le> length c" and "length c \<le> 15"
  using assms by (auto simp: clean_phone_number_def Let_def split: if_splits)

lemma clean_phone_number_chars:
  assumes "clean_phone_number x = Some c"
  shows "\<forall>ch \<in> set c. re_digit ch \<or> ch = CHR ''+''"
proof -
  have "\<forall>ch \<in> set (strip_non_phone x). re_digit ch \<or> ch = CHR ''+''"
    using strip_non_phone_chars by blast
  then show ?thesis
    using indonesian_format_chars clean_phone_number_Some(1) [OF assms] by blast
qed

text \<open>
  C4. Phone normalization is idempotent: whenever \<open>clean_phone_number x\<close> is a value \<open>c\<close>
  (not \<open>None\<close>), \<open>clean_phone_number c\<close> is \<open>c\<close> again.
\<close>

theorem clean_phone_number_idempotent:
  assumes "clean_phone_number x = Some c"
  shows "clean_phone_number c = Some c"
proof -
  note props = clean_phone_number_Some [OF assms]
  have plus: "startswith c ''+''"
    using props(2) by (cases c) (auto simp: startswith_def)
  have "strip_non_phone c = c"
    using clean_phone_number_chars [OF assms] by (rule strip_non_phone_fixed)
  moreover have "indonesian_format c = c"
    using plus by (rule plus_start_format)
  moreover have "c \<noteq> []"
    using props(3) by auto
  ultimately show ?thesis
    using props(2-4) by (simp add: clean_phone_number_def)
qed

theorem clean_phone_number_idempotent_witness:
  "clean_phone_number ''0812-3456-7890'' = Some ''+6281234567890''
   \<and> clean_phone_number ''+6281234567890'' = Some ''+6281234567890''"
proof -
  have h: "clean_phone_number ''0812-3456-7890'' = Some ''+6281234567890''"
    by (simp add: clean_phone_number_def strip_non_phone_def indonesian_format_def
        startswith_def re_digit_def)
  from h clean_phone_number_idempotent [OF h] show ?thesis
    by simp
qed




text \<open>
  C6. The three spellings \<open>081234567890\<close>, \<open>+6281234567890\<close> and \<open>6281234567890\<close> of
  one Indonesian number all give \<open>+6281234567890\<close>.
\<close>

theorem clean_phone_number_three_spellings:
  "clean_phone_number ''081234567890'' = Some ''+6281234567890''
   \<and> clean_phone_number ''+6281234567890'' = Some ''+6281234567890''
   \<and> clean_phone_number ''6281234567890'' = Some ''+6281234567890''"
  by (simp add: clean_phone_number_def strip_non_phone_def indonesian_format_def
      startswith_def re_digit_def)

section \<open>Properties of the classification of a contact string\<close>

text \<open>
  C9. \<open>_determine_contact_type\<close> checks in the order whatsapp (the lower-cased string
  holds \<open>whatsapp\<close> or \<open>wa.\<close>), email (\<open>@\<close>), phone (a digit), social (a platform name):
  a string with a digit, without \<open>@\<close> and without a whatsapp marker is a \<open>phone\<close>, and
  \<open>social\<close> is the result only for a string with no digit, no \<open>@\<close> and no marker.
\<close>

theorem determine_contact_type_priority:
  "(contains (lower contact) ''whatsapp'' \<or> contains (lower contact) ''wa.''
      \<longrightarrow> determine_contact_type contact = ''whatsapp'')
   \<and> (\<not> contains (lower contact) ''whatsapp'' \<and> \<not> contains (lower contact) ''wa.''
        \<and> CHR ''@'' \<in> set contact
      \<longrightarrow> determine_contact_type contact = ''email'')
   \<and> (\<not> contains (lower contact) ''whatsapp'' \<and> \<not> contains (lower contact) ''wa.''
        \<and> CHR ''@'' \<notin> set contact \<and> list_ex py_isdigit contact
      \<longrightarrow> determine_contact_type contact = ''phone'')
   \<and> (determine_contact_type contact = ''social''
      \<longrightarrow> \<not> list_ex py_isdigit contact \<and> CHR ''@'' \<notin> set contact
          \<and> \<not> contains (lower contact) ''whatsapp'' \<and> \<not> contains (lower contact) ''wa.''
          \<and> list_ex (contains (lower contact)) [''instagram'', ''facebook'', ''tiktok'', ''youtube''])"
  by (simp add: determine_contact_type_def Let_def)

theorem determine_contact_type_priority_witness:
  "determine_contact_type ''instagram.com/brand2024'' = ''phone''
   \<and> list_ex py_isdigit ''instagram.com/brand2024''
   \<and> determine_contact_type ''instagram.com/acme'' = ''social''
   \<and> \<not> list_ex py_isdigit ''instagram.com/acme''
   \<and> determine_contact_type ''wa.me/6281234567890'' = ''whatsapp''
   \<and> determine_contact_type ''Email: a@acme.id'' = ''email''"
proof -
  have m1: "\<not> contains (lower ''instagram.com/brand2024'') ''whatsapp''"
    and m2: "\<not> contains (lower ''instagram.com/brand2024'') ''wa.''"
    and m3: "CHR ''@'' \<notin> set ''instagram.com/brand2024''"
    and m4: "list_ex py_isdigit ''instagram.com/brand2024''"
    by code_simp+
  have s: "determine_contact_type ''instagram.com/acme'' = ''social''"
    by code_simp
  have w: "contains (lower ''wa.me/6281234567890'') ''wa.''"
    by code_simp
  have e1: "\<not> contains (lower ''Email: a@acme.id'') ''whatsapp''"
    and e2: "\<not> contains (lower ''Email: a@acme.id'') ''wa.''"
    and e3: "CHR ''@'' \<in> set ''Email: a@acme.id''"
    by code_simp+
  from m1 m2 m3 m4 have "determine_contact_type ''instagram.com/brand2024'' = ''phone''"
    using determine_contact_type_priority [of "''instagram.com/brand2024''"] by blast
  moreover from s have "\<not> list_ex py_isdigit ''instagram.com/acme''"
    using determine_contact_type_priority [of "''instagram.com/acme''"] by blast
  moreover from w have "determine_contact_type ''wa.me/6281234567890'' = ''whatsapp''"
    using determine_contact_type_priority [of "''wa.me/6281234567890''"] by blast
  moreover from e1 e2 e3 have "determine_contact_type ''Email: a@acme.id'' = ''email''"
    using determine_contact_type_priority [of "''Email: a@acme.id''"] by blast
  ultimately show ?thesis
    using m4 s by blast
qed

section \<open>Properties of the store\<close>

lemma foldr_max_ge: "seq \<le> foldr max ids (seq :: int)"
  by (induction ids) auto

lemma next_rowid_positive: "0 \<le> seq \<Longrightarrow> 1 \<le> next_rowid seq ids"
  using foldr_max_ge [of seq ids] by (simp add: next_rowid_def)

lemma fetchone_None: "fetchone rows = None \<longleftrightarrow> rows = []"
  by (cases rows) (simp_all add: fetchone_def)

lemma fetchone_select_None:
  "fetchone (select_brand n w db) = None \<longleftrightarrow> \<not> (\<exists>r \<in> set (brands db). b_name r = n \<or> b_website r = w)"
  by (simp add: fetchone_None select_brand_def filter_empty_conv)

lemma fetchone_select_Some:
  assumes "fetchone (select_brand n w db) = Some i"
  shows "\<exists>pre r post. brands db = pre @ r # post \<and> b_id r = i
           \<and> (b_name r = n \<or> b_website r = w)
           \<and> (\<forall>p \<in> set pre. \<not> (b_name p = n \<or> b_website p = w))"
proof -
  from assms obtain ys where ys: "map b_id (filter (\<lambda>r. b_name r = n \<or> b_website r = w) (brands db)) = i # ys"
    by (auto simp: fetchone_def select_brand_def split: list.splits)
  then obtain r rs where f: "filter (\<lambda>r. b_name r = n \<or> b_website r = w) (brands db) = r # rs"
    and r: "b_id r = i"
    by (cases "filter (\<lambda>r. b_name r = n \<or> b_website r = w) (brands db)") auto
  from f obtain pre post where "brands db = pre @ r # post"
    and "\<forall>p \<in> set pre. \<not> (b_name p = n \<or> b_website p = w)" and "b_name r = n \<or> b_website r = w"
    unfolding filter_eq_Cons_iff by blast
  with r show ?thesis by blast
qed

text \<open>The loop of \<open>_save_contacts\<close> writes only to the table of contacts.\<close>

lemma insert_contacts_brands:
  "brands (fst (insert_contacts f i k cs db)) = brands db
   \<and> brands_seq (fst (insert_contacts f i k cs db)) = brands_seq db"
  by (induction cs arbitrary: k db)
     (auto simp: Let_def insert_contact_def split: option.splits)


lemma insert_contacts_no_fault:
  "map (\<lambda>c. (c_type c, c_value c)) (filter (\<lambda>c. c_brand_id c = i) (contacts (fst (insert_contacts no_fault i k cs db))))
   = map (\<lambda>c. (c_type c, c_value c)) (filter (\<lambda>c. c_brand_id c = i) (contacts db))
     @ map (\<lambda>s. (determine_contact_type s, extract_contact_value s))
         (filter (\<lambda>s. extract_contact_value s \<noteq> []) cs)"
  by (induction cs arbitrary: k db)
     (auto simp: Let_def insert_contact_def no_fault_def)

lemma save_contacts_brands:
  "brands (fst (save_contacts f i cs st)) = brands (fst st)
   \<and> brands_seq (fst (save_contacts f i cs st)) = brands_seq (fst st)"
proof -
  have "brands (fst (save_contacts_try f i cs (fst st))) = brands (fst st)
        \<and> brands_seq (fst (save_contacts_try f i cs (fst st))) = brands_seq (fst st)"
    using insert_contacts_brands [of f i 0 cs "delete_contacts i (fst st)"]
    by (simp add: save_contacts_try_def delete_contacts_def split: option.splits)
  then show ?thesis
    by (cases "save_contacts_try f i cs (fst st)") (auto simp: save_contacts_def split: sum.splits)
qed


lemma save_contacts_no_fault:
  "map (\<lambda>c. (c_type c, c_value c)) (filter (\<lambda>c. c_brand_id c = i) (contacts (fst (save_contacts no_fault i cs st))))
   = map (\<lambda>s. (determine_contact_type s, extract_contact_value s))
       (filter (\<lambda>s. extract_contact_value s \<noteq> []) cs)"
proof -
  have "map (\<lambda>c. (c_type c, c_value c)) (filter (\<lambda>c. c_brand_id c = i) (contacts (fst (save_contacts_try no_fault i cs (fst st)))))
        = map (\<lambda>s. (determine_contact_type s, extract_contact_value s))
            (filter (\<lambda>s. extract_contact_value s \<noteq> []) cs)"
    using insert_contacts_no_fault [of i 0 cs "delete_contacts i (fst st)"]
    by (simp add: save_contacts_try_def delete_contacts_def no_fault_def)
  then show ?thesis
    by (cases "save_contacts_try no_fault i cs (fst st)") (auto simp: save_contacts_def split: sum.splits)
qed

text \<open>\<open>save_brand\<close> when no call outside \<open>_save_contacts\<close> fails, and when one does.\<close>

lemma save_brand_written:
  assumes "f Connect = None" and "f SelectBrand = None" and "f Commit = None"
    and "write_brand f bd (find_existing bd db) db
         = Inr (db1, i, line)"
  shows "save_brand f bd (db, lg)
         = (save_contacts f i (dict_get (d_contacts bd) []) (db1, lg @ [line]), Inr i)"
  using assms by (simp add: save_brand_def save_brand_try_def Let_def)

lemma save_brand_rolled_back:
  assumes "f Connect \<noteq> None \<or> f SelectBrand \<noteq> None \<or> f Commit \<noteq> None
           \<or> (\<exists>e. write_brand f bd (find_existing bd db) db
                  = Inl e)"
  shows "\<exists>lg' msg. save_brand f bd (db, lg)
           = ((db, lg' @ [LogError (''Error saving brand data: '' @ msg)]), Inr 0)"
  using assms
  by (auto simp: save_brand_def save_brand_try_def Let_def split: option.splits sum.splits prod.splits)

lemma write_brand_update:
  "f UpdateBrand = None \<Longrightarrow>
   write_brand f bd (Some i) db
   = Inr (update_brand i bd db, i, LogInfo (''Updated existing brand: '' @ name_text bd))"
  by (simp add: write_brand_def)

lemma write_brand_insert:
  "f InsertBrand = None \<Longrightarrow>
   write_brand f bd None db
   = Inr (fst (insert_brand bd db), snd (insert_brand bd db),
          LogInfo (''Saved new brand: '' @ name_text bd))"
  by (simp add: write_brand_def split: prod.splits)

lemma find_existing_None:
  "find_existing bd db = None \<longleftrightarrow>
   \<not> (\<exists>r \<in> set (brands db). b_name r = dict_get (d_name bd) ''''
                             \<or> b_website r = dict_get (d_website bd) '''')"
  by (simp add: find_existing_def fetchone_select_None)

lemma find_existing_stored:
  "find_existing bd db = Some i \<Longrightarrow> i \<in> set (map b_id (brands db))"
  unfolding find_existing_def by (drule fetchone_select_Some) auto

lemma save_brand_existing:
  assumes "find_existing bd db = Some i"
    and "f Connect = None" and "f SelectBrand = None" and "f UpdateBrand = None" and "f Commit = None"
  shows "save_brand f bd (db, lg)
         = (save_contacts f i (dict_get (d_contacts bd) [])
              (update_brand i bd db, lg @ [LogInfo (''Updated existing brand: '' @ name_text bd)]),
            Inr i)"
  using assms write_brand_update [of f bd i db] save_brand_written [of f bd db] by simp

lemma save_brand_new:
  assumes "find_existing bd db = None"
    and "f Connect = None" and "f SelectBrand = None" and "f InsertBrand = None" and "f Commit = None"
  shows "save_brand f bd (db, lg)
         = (save_contacts f (snd (insert_brand bd db)) (dict_get (d_contacts bd) [])
              (fst (insert_brand bd db), lg @ [LogInfo (''Saved new brand: '' @ name_text bd)]),
            Inr (snd (insert_brand bd db)))"
  using assms write_brand_insert [of f bd db] save_brand_written [of f bd db] by simp

lemma update_brand_ids:
  "map b_id (brands (update_brand i bd db)) = map b_id (brands db)
   \<and> map b_name (brands (update_brand i bd db)) = map b_name (brands db)
   \<and> brands_seq (update_brand i bd db) = brands_seq db"
  by (simp add: update_brand_def)

lemma insert_brand_rows:
  "brands (fst (insert_brand bd db)) = brands db @ [last (brands (fst (insert_brand bd db)))]
   \<and> b_id (last (brands (fst (insert_brand bd db)))) = snd (insert_brand bd db)
   \<and> brands_seq (fst (insert_brand bd db)) = snd (insert_brand bd db)
   \<and> snd (insert_brand bd db) = next_rowid (brands_seq db) (map b_id (brands db))"
  by (simp add: insert_brand_def Let_def)


lemma update_rows_ids:
  "list_all (\<lambda>r. 1 \<le> b_id r) rows \<Longrightarrow>
   list_all (\<lambda>r. 1 \<le> b_id r) (brands (update_brand i bd (db\<lparr>brands := rows\<rparr>)))"
  by (induction rows) (simp_all add: update_brand_def)

lemma valid_ids_update: "valid_ids db \<Longrightarrow> valid_ids (update_brand i bd db)"
  using update_rows_ids [where rows = "brands db" and db = db and i = i and bd = bd]
  by (simp add: valid_ids_def update_brand_def)

lemma update_rows_category:
  "list_all (\<lambda>r. b_id r = i \<longrightarrow> b_category r = dict_get (d_category bd) ''''
                                 \<and> b_contacts r = dict_get (d_contacts bd) [])
     (brands (update_brand i bd (db\<lparr>brands := rows\<rparr>)))"
  by (induction rows) (simp_all add: update_brand_def)

lemma valid_ids_insert: "valid_ids db \<Longrightarrow> valid_ids (fst (insert_brand bd db))"
  using next_rowid_positive [of "brands_seq db" "map b_id (brands db)"]
  by (simp add: valid_ids_def insert_brand_def Let_def list_all_iff)


text \<open>
  C1, as stated, asks that both contacts are stored after the two calls. The second call
  deletes the contact rows of the brand before it writes its own, and overwrites the
  column \<open>contacts\<close> of the brand.
\<close>

theorem upsert_drops_first_contact:
  "''a@acme.id'' \<notin> set (map c_value (contacts (saved acme_second (saved acme_first empty_database))))
   \<and> ''a@acme.id'' \<notin> set (concat (map b_contacts (brands (saved acme_second (saved acme_first empty_database)))))"
  by code_simp

text \<open>
  C1 (amended). A call of \<open>save_brand\<close> for an entity that is already stored returns the
  identifier of that entity and adds no entity; the entity has the category and the
  contact list of the call, and its contact rows are those of the call's contacts alone
  (type and value of each contact with a non-empty value, in order): the contacts of a
  call replace those stored before.
\<close>

theorem save_brand_existing_replaces_contacts:
  assumes "find_existing bd db = Some i"
  shows "snd (save_brand no_fault bd (db, lg)) = Inr i
    \<and> length (brands (fst (fst (save_brand no_fault bd (db, lg))))) = length (brands db)
    \<and> list_all (\<lambda>r. b_id r = i \<longrightarrow> b_category r = dict_get (d_category bd) ''''
                                    \<and> b_contacts r = dict_get (d_contacts bd) [])
        (brands (fst (fst (save_brand no_fault bd (db, lg)))))
    \<and> map (\<lambda>c. (c_type c, c_value c))
        (filter (\<lambda>c. c_brand_id c = i) (contacts (fst (fst (save_brand no_fault bd (db, lg))))))
      = map (\<lambda>s. (determine_contact_type s, extract_contact_value s))
          (filter (\<lambda>s. extract_contact_value s \<noteq> []) (dict_get (d_contacts bd) []))"
proof -
  let ?st = "(update_brand i bd db, lg @ [LogInfo (''Updated existing brand: '' @ name_text bd)])"
  let ?cs = "dict_get (d_contacts bd) []"
  have eq: "save_brand no_fault bd (db, lg) = (save_contacts no_fault i ?cs ?st, Inr i)"
    using assms by (intro save_brand_existing) (simp_all add: no_fault_def)
  have b: "brands (fst (save_contacts no_fault i ?cs ?st)) = brands (update_brand i bd db)"
    using save_contacts_brands [of no_fault i ?cs ?st] by simp
  have "length (brands (update_brand i bd db)) = length (brands db)"
    by (simp add: update_brand_def)
  moreover have "list_all (\<lambda>r. b_id r = i \<longrightarrow> b_category r = dict_get (d_category bd) ''''
                                    \<and> b_contacts r = dict_get (d_contacts bd) [])
                   (brands (update_brand i bd db))"
    using update_rows_category [where rows = "brands db" and db = db and i = i and bd = bd]
    by simp
  ultimately show ?thesis
    using eq b save_contacts_no_fault [of i ?cs ?st] by simp
qed

theorem save_brand_existing_replaces_contacts_witness:
  "find_existing acme_second (saved acme_first empty_database) = Some 1
   \<and> snd (save_brand no_fault acme_second (saved acme_first empty_database, [])) = Inr 1
   \<and> length (brands (saved acme_second (saved acme_first empty_database))) = 1
   \<and> map b_category (brands (saved acme_second (saved acme_first empty_database))) = [''Skincare'']
   \<and> map (\<lambda>c. (c_type c, c_value c))
       (filter (\<lambda>c. c_brand_id c = 1) (contacts (saved acme_second (saved acme_first empty_database))))
     = [(''phone'', ''+6281111111111'')]"
proof -
  have h: "find_existing acme_second (saved acme_first empty_database) = Some 1"
    by code_simp
  have n: "length (brands (saved acme_first empty_database)) = 1"
    by code_simp
  have c: "map b_category (brands (saved acme_second (saved acme_first empty_database))) = [''Skincare'']"
    by code_simp
  have v: "map (\<lambda>s. (determine_contact_type s, extract_contact_value s))
             (filter (\<lambda>s. extract_contact_value s \<noteq> []) (dict_get (d_contacts acme_second) []))
           = [(''phone'', ''+6281111111111'')]"
    by code_simp
  from save_brand_existing_replaces_contacts [OF h, of "[]"] h n c v show ?thesis
    by (simp add: saved_def)
qed

text \<open>
  C2, as stated, asks that an empty or absent category of the input leaves a stored
  category as it is. The update sets the column to the value of the input, the empty
  string for an absent key.
\<close>

theorem empty_category_erases_stored_category:
  "map b_category (brands (saved acme_second empty_database)) = [''Skincare'']
   \<and> map b_category (brands (saved acme_empty_category (saved acme_second empty_database))) = ['''']
   \<and> map b_category (brands (saved acme_first (saved acme_second empty_database))) = ['''']"
  by code_simp

text \<open>
  C2 (amended). A call of \<open>save_brand\<close> for an entity that is already stored sets the
  website, category, location, business type, contact list and description of that entity
  to the values of the input, the empty string (the empty list) for an absent one: an
  empty or absent attribute erases the stored value. The name and the identifier of the
  entity, and every other entity, stay as they are.
\<close>

theorem save_brand_overwrites_attributes:
  assumes "find_existing bd db = Some i"
  shows "brands (fst (fst (save_brand no_fault bd (db, lg))))
         = map (\<lambda>r. if b_id r = i
                     then r\<lparr>b_website := dict_get (d_website bd) '''',
                            b_category := dict_get (d_category bd) '''',
                            b_location := dict_get (d_location bd) '''',
                            b_business_type := dict_get (d_business_type bd) '''',
                            b_contacts := dict_get (d_contacts bd) [],
                            b_description := dict_get (d_description bd) ''''\<rparr>
                     else r)
             (brands db)"
proof -
  let ?st = "(update_brand i bd db, lg @ [LogInfo (''Updated existing brand: '' @ name_text bd)])"
  have "save_brand no_fault bd (db, lg)
        = (save_contacts no_fault i (dict_get (d_contacts bd) []) ?st, Inr i)"
    using assms by (intro save_brand_existing) (simp_all add: no_fault_def)
  then show ?thesis
    using save_contacts_brands [of no_fault i "dict_get (d_contacts bd) []" ?st]
    by (simp add: update_brand_def)
qed

theorem save_brand_overwrites_attributes_witness:
  "find_existing acme_first (saved acme_second empty_database) = Some 1
   \<and> brands (saved acme_second empty_database)
     = [\<lparr>b_id = 1, b_name = ''Acme'', b_website = ''acme.id'', b_category = ''Skincare'',
         b_location = '''', b_business_type = '''', b_contacts = [''+6281111111111''],
         b_description = ''''\<rparr>]
   \<and> brands (saved acme_first (saved acme_second empty_database))
     = [\<lparr>b_id = 1, b_name = ''Acme'', b_website = ''acme.id'', b_category = '''',
         b_location = '''', b_business_type = '''', b_contacts = [''a@acme.id''],
         b_description = ''''\<rparr>]"
proof -
  have h: "find_existing acme_first (saved acme_second empty_database) = Some 1"
    by code_simp
  have b: "brands (saved acme_second empty_database)
     = [\<lparr>b_id = 1, b_name = ''Acme'', b_website = ''acme.id'', b_category = ''Skincare'',
         b_location = '''', b_business_type = '''', b_contacts = [''+6281111111111''],
         b_description = ''''\<rparr>]"
    by code_simp
  from save_brand_overwrites_attributes [OF h, of "[]"] h b show ?thesis
    by (simp add: saved_def acme_first_def dict_get_def)
qed

text \<open>
  C3. The claim: an entity matches when the incoming name or the incoming website equals
  the stored one, and an empty incoming name or website matches no stored entity. The
  code misses the second part. The lookup takes the empty string for an absent key and
  compares it like any other value, so a brand named Beta without website is taken for
  the stored brand Alpha without website: the call logs that it updated the existing
  brand Beta, returns the identifier of Alpha and overwrites that row, and the store
  keeps one row, named Alpha. Three calls with a dictionary that has neither name nor
  website leave a single row named Unknown.
\<close>

theorem empty_website_unifies_entities:
  "map b_website (brands (saved (name_only ''Alpha'') empty_database)) = ['''']
   \<and> save_brand no_fault (name_only ''Beta'') (saved (name_only ''Alpha'') empty_database, [])
     = ((\<lparr>brands = [\<lparr>b_id = 1, b_name = ''Alpha'', b_website = '''', b_category = '''',
                      b_location = '''', b_business_type = '''', b_contacts = [],
                      b_description = ''''\<rparr>],
          brands_seq = 1, contacts = [], contacts_seq = 0\<rparr>,
         [LogInfo ''Updated existing brand: Beta'']),
        Inr 1)
   \<and> map (\<lambda>r. (b_id r, b_name r, b_website r))
       (brands (saved no_keys (saved no_keys (saved no_keys empty_database))))
     = [(1, ''Unknown'', '''')]"
  by code_simp

text \<open>What the lookup does: it finds the first row with the incoming name or website.\<close>

lemma save_brand_lookup_rule:
  "(find_existing bd db \<noteq> None \<longleftrightarrow>
      (\<exists>r \<in> set (brands db). b_name r = dict_get (d_name bd) ''''
                               \<or> b_website r = dict_get (d_website bd) ''''))
   \<and> (find_existing bd db = Some i \<longrightarrow>
        (\<exists>pre r post. brands db = pre @ r # post \<and> b_id r = i
           \<and> (b_name r = dict_get (d_name bd) '''' \<or> b_website r = dict_get (d_website bd) '''')
           \<and> (\<forall>p \<in> set pre. \<not> (b_name p = dict_get (d_name bd) ''''
                                  \<or> b_website p = dict_get (d_website bd) '''')))
        \<and> snd (save_brand no_fault bd (db, lg)) = Inr i
        \<and> length (brands (fst (fst (save_brand no_fault bd (db, lg))))) = length (brands db))
   \<and> (find_existing bd db = None \<longrightarrow>
        length (brands (fst (fst (save_brand no_fault bd (db, lg))))) = Suc (length (brands db)))"
proof (intro conjI impI)
  show "find_existing bd db \<noteq> None \<longleftrightarrow>
      (\<exists>r \<in> set (brands db). b_name r = dict_get (d_name bd) ''''
                               \<or> b_website r = dict_get (d_website bd) '''')"
    using find_existing_None [of bd db] by simp
next
  assume h: "find_existing bd db = Some i"
  then show "\<exists>pre r post. brands db = pre @ r # post \<and> b_id r = i
           \<and> (b_name r = dict_get (d_name bd) '''' \<or> b_website r = dict_get (d_website bd) '''')
           \<and> (\<forall>p \<in> set pre. \<not> (b_name p = dict_get (d_name bd) ''''
                                  \<or> b_website p = dict_get (d_website bd) ''''))"
    unfolding find_existing_def by (rule fetchone_select_Some)
  let ?st = "(update_brand i bd db, lg @ [LogInfo (''Updated existing brand: '' @ name_text bd)])"
  have eq: "save_brand no_fault bd (db, lg)
        = (save_contacts no_fault i (dict_get (d_contacts bd) []) ?st, Inr i)"
    using h by (intro save_brand_existing) (simp_all add: no_fault_def)
  then show "snd (save_brand no_fault bd (db, lg)) = Inr i"
    by simp
  show "length (brands (fst (fst (save_brand no_fault bd (db, lg))))) = length (brands db)"
    using eq save_contacts_brands [of no_fault i "dict_get (d_contacts bd) []" ?st]
    by (simp add: update_brand_def)
next
  assume h: "find_existing bd db = None"
  let ?st = "(fst (insert_brand bd db), lg @ [LogInfo (''Saved new brand: '' @ name_text bd)])"
  have eq: "save_brand no_fault bd (db, lg)
        = (save_contacts no_fault (snd (insert_brand bd db)) (dict_get (d_contacts bd) []) ?st,
           Inr (snd (insert_brand bd db)))"
    using h by (intro save_brand_new) (simp_all add: no_fault_def)
  show "length (brands (fst (fst (save_brand no_fault bd (db, lg))))) = Suc (length (brands db))"
    using eq save_contacts_brands [of no_fault "snd (insert_brand bd db)" "dict_get (d_contacts bd) []" ?st]
    by (simp add: insert_brand_def Let_def)
qed



lemma write_brand_result:
  assumes "valid_ids db"
    and "find_existing bd db \<noteq> None \<longrightarrow> f UpdateBrand = None"
    and "find_existing bd db = None \<longrightarrow> f InsertBrand = None"
  shows "\<exists>db1 n line. write_brand f bd (find_existing bd db) db = Inr (db1, n, line)
           \<and> valid_ids db1 \<and> n \<noteq> 0 \<and> n \<in> set (map b_id (brands db1))"
proof (cases "find_existing bd db")
  case None
  have "1 \<le> snd (insert_brand bd db)"
    using assms(1) next_rowid_positive [of "brands_seq db" "map b_id (brands db)"]
    by (simp add: insert_brand_def Let_def valid_ids_def)
  moreover have "snd (insert_brand bd db) \<in> set (map b_id (brands (fst (insert_brand bd db))))"
    by (simp add: insert_brand_def Let_def)
  ultimately show ?thesis
    using None assms(3) write_brand_insert [of f bd db] valid_ids_insert [OF assms(1), of bd]
    by auto
next
  case (Some i)
  have "i \<in> set (map b_id (brands db))"
    using Some by (rule find_existing_stored)
  then have "1 \<le> i"
    using assms(1) by (auto simp: valid_ids_def list_all_iff)
  moreover have "i \<in> set (map b_id (brands (update_brand i bd db)))"
    using \<open>i \<in> set (map b_id (brands db))\<close> update_brand_ids [of i bd db] by simp
  ultimately show ?thesis
    using Some assms(2) write_brand_update [of f bd i db] valid_ids_update [OF assms(1), of i bd]
    by auto
qed

lemma write_brand_fault:
  assumes "(find_existing bd db \<noteq> None \<and> f UpdateBrand \<noteq> None)
           \<or> (find_existing bd db = None \<and> f InsertBrand \<noteq> None)"
  shows "\<exists>e. write_brand f bd (find_existing bd db) db = Inl e"
  using assms by (auto simp: write_brand_def split: option.splits)
















section \<open>Properties of the grouping of contacts\<close>

lemma add_to_bucket_whatsapp:
  "set (g_whatsapp (add_to_bucket t v g))
   = (if t = ''whatsapp'' \<or> (t = ''phone'' \<and> startswith v ''+62'')
      then insert v (set (g_whatsapp g)) else set (g_whatsapp g))"
  by (simp add: add_to_bucket_def)

lemma add_to_bucket_phone:
  "set (g_phone (add_to_bucket t v g))
   = (if t = ''phone'' \<and> \<not> startswith v ''+62''
      then insert v (set (g_phone g)) else set (g_phone g))"
  by (simp add: add_to_bucket_def)

text \<open>
  A value enters a bucket only at its first occurrence, when it is not yet in
  \<open>seen_values\<close>; its type there decides the bucket.
\<close>

lemma group_contacts_whatsapp:
  "v \<in> set (g_whatsapp (snd (group_contacts cs st))) \<longleftrightarrow>
   v \<in> set (g_whatsapp (snd st))
   \<or> (v \<notin> fst st \<and> (\<exists>c. find (\<lambda>c. cvalue c = v) cs = Some c
         \<and> (ctype c = ''whatsapp'' \<or> (ctype c = ''phone'' \<and> startswith v ''+62''))))"
proof (induction cs arbitrary: st)
  case Nil
  show ?case by simp
next
  case (Cons c rest)
  show ?case
  proof (cases "cvalue c \<in> fst st")
    case True
    then show ?thesis
      using Cons.IH [of st] by auto
  next
    case False
    then show ?thesis
      using Cons.IH [of "(insert (cvalue c) (fst st), add_to_bucket (ctype c) (cvalue c) (snd st))"]
      by (cases "cvalue c = v") (auto simp: add_to_bucket_whatsapp)
  qed
qed

lemma group_contacts_phone:
  "v \<in> set (g_phone (snd (group_contacts cs st))) \<longleftrightarrow>
   v \<in> set (g_phone (snd st))
   \<or> (v \<notin> fst st \<and> (\<exists>c. find (\<lambda>c. cvalue c = v) cs = Some c
         \<and> ctype c = ''phone'' \<and> \<not> startswith v ''+62''))"
proof (induction cs arbitrary: st)
  case Nil
  show ?case by simp
next
  case (Cons c rest)
  show ?case
  proof (cases "cvalue c \<in> fst st")
    case True
    then show ?thesis
      using Cons.IH [of st] by auto
  next
    case False
    then show ?thesis
      using Cons.IH [of "(insert (cvalue c) (fst st), add_to_bucket (ctype c) (cvalue c) (snd st))"]
      by (cases "cvalue c = v") (auto simp: add_to_bucket_phone)
  qed
qed

lemma grouped_whatsapp:
  "v \<in> set (g_whatsapp (snd (group_contacts cs ({}, no_contacts)))) \<longleftrightarrow>
   (\<exists>c. find (\<lambda>c. cvalue c = v) cs = Some c
      \<and> (ctype c = ''whatsapp'' \<or> (ctype c = ''phone'' \<and> startswith v ''+62'')))"
  using group_contacts_whatsapp [of v cs "({}, no_contacts)"] by (simp add: no_contacts_def)

lemma grouped_phone:
  "v \<in> set (g_phone (snd (group_contacts cs ({}, no_contacts)))) \<longleftrightarrow>
   (\<exists>c. find (\<lambda>c. cvalue c = v) cs = Some c \<and> ctype c = ''phone'' \<and> \<not> startswith v ''+62'')"
  using group_contacts_phone [of v cs "({}, no_contacts)"] by (simp add: no_contacts_def)

lemma find_value:
  assumes "\<exists>c \<in> set cs. cvalue c = v"
  shows "\<exists>c. find (\<lambda>c. cvalue c = v) cs = Some c \<and> c \<in> set cs \<and> cvalue c = v"
proof (cases "find (\<lambda>c. cvalue c = v) cs")
  case None
  with assms show ?thesis by (auto simp: find_None_iff)
next
  case (Some c)
  then show ?thesis by (auto simp: find_Some_iff)
qed

lemma parse_contact_results_single:
  assumes "v \<in> set (g_whatsapp (snd (group_contacts cs ({}, no_contacts))))
           \<or> v \<in> set (g_phone (snd (group_contacts cs ({}, no_contacts))))"
  shows "\<exists>r. parse_contact_results cs q = [r]
           \<and> whatsapp_numbers r = g_whatsapp (snd (group_contacts cs ({}, no_contacts)))
           \<and> phone_numbers r = g_phone (snd (group_contacts cs ({}, no_contacts)))"
proof -
  from assms have "g_whatsapp (snd (group_contacts cs ({}, no_contacts))) \<noteq> []
                   \<or> g_phone (snd (group_contacts cs ({}, no_contacts))) \<noteq> []"
    by auto
  then show ?thesis
    by (auto simp: parse_contact_results_def Let_def)
qed

lemma parse_contact_results_buckets_of:
  "r \<in> set (parse_contact_results cs q) \<Longrightarrow>
   whatsapp_numbers r = g_whatsapp (snd (group_contacts cs ({}, no_contacts)))
   \<and> phone_numbers r = g_phone (snd (group_contacts cs ({}, no_contacts)))"
  by (auto simp: parse_contact_results_def Let_def split: if_splits)

text \<open>
  C7, as stated, puts a number matched only by a plain phone pattern into the phone
  bucket. A contact of type \<open>phone\<close> whose value starts with \<open>+62\<close> is put into the
  whatsapp bucket. The input is the list found in the text \<open>+6281234567890\<close>: three of
  the phone patterns match it, no WhatsApp pattern does.
\<close>

theorem plain_phone_lands_in_whatsapp:
  "parse_contact_results
     [\<lparr>ctype = ''phone'', cvalue = ''+6281234567890'', csource = '''', craw = ''+6281234567890''\<rparr>,
      \<lparr>ctype = ''phone'', cvalue = ''+6281234567890'', csource = '''', craw = ''+6281234567890''\<rparr>,
      \<lparr>ctype = ''phone'', cvalue = ''+6281234567890'', csource = '''', craw = ''6281234567890''\<rparr>]
     ''acme''
   = [\<lparr>r_query = ''acme'', whatsapp_numbers = [''+6281234567890''], phone_numbers = [],
       email_addresses = [], social_media = [], total_contacts_found = 1\<rparr>]"
  by (simp add: parse_contact_results_def add_to_bucket_def no_contacts_def startswith_def)

text \<open>
  C7 (amended). In the grouped output no value is in both the whatsapp and the phone
  bucket. A value whose contacts are all of type \<open>phone\<close> is in the whatsapp bucket,
  and not in the phone bucket, when it starts with \<open>+62\<close>; it is in the phone bucket,
  and not in the whatsapp bucket, when it does not. A value whose contacts are all of
  type \<open>whatsapp\<close>, or of type \<open>whatsapp\<close> and of type \<open>phone\<close> with a value that starts
  with \<open>+62\<close>, is in the whatsapp bucket only.
\<close>

theorem parse_contact_results_buckets:
  "(\<forall>r \<in> set (parse_contact_results cs q). set (whatsapp_numbers r) \<inter> set (phone_numbers r) = {})
   \<and> ((\<exists>c \<in> set cs. cvalue c = v) \<and> (\<forall>c \<in> set cs. cvalue c = v \<longrightarrow> ctype c = ''phone'')
        \<and> startswith v ''+62''
      \<longrightarrow> (\<exists>r. parse_contact_results cs q = [r]
             \<and> v \<in> set (whatsapp_numbers r) \<and> v \<notin> set (phone_numbers r)))
   \<and> ((\<exists>c \<in> set cs. cvalue c = v) \<and> (\<forall>c \<in> set cs. cvalue c = v \<longrightarrow> ctype c = ''phone'')
        \<and> \<not> startswith v ''+62''
      \<longrightarrow> (\<exists>r. parse_contact_results cs q = [r]
             \<and> v \<in> set (phone_numbers r) \<and> v \<notin> set (whatsapp_numbers r)))
   \<and> ((\<exists>c \<in> set cs. cvalue c = v)
        \<and> (\<forall>c \<in> set cs. cvalue c = v \<longrightarrow>
              ctype c = ''whatsapp'' \<or> (ctype c = ''phone'' \<and> startswith v ''+62''))
      \<longrightarrow> (\<exists>r. parse_contact_results cs q = [r]
             \<and> v \<in> set (whatsapp_numbers r) \<and> v \<notin> set (phone_numbers r)))"
proof (intro conjI impI ballI)
  fix r
  assume "r \<in> set (parse_contact_results cs q)"
  then have "whatsapp_numbers r = g_whatsapp (snd (group_contacts cs ({}, no_contacts)))"
    and "phone_numbers r = g_phone (snd (group_contacts cs ({}, no_contacts)))"
    using parse_contact_results_buckets_of by blast+
  then show "set (whatsapp_numbers r) \<inter> set (phone_numbers r) = {}"
    using grouped_whatsapp [of _ cs] grouped_phone [of _ cs] by auto
next
  assume a: "(\<exists>c \<in> set cs. cvalue c = v) \<and> (\<forall>c \<in> set cs. cvalue c = v \<longrightarrow> ctype c = ''phone'')
        \<and> startswith v ''+62''"
  then obtain c where c: "find (\<lambda>c. cvalue c = v) cs = Some c" "c \<in> set cs" "cvalue c = v"
    using find_value [of cs v] by blast
  with a have w: "v \<in> set (g_whatsapp (snd (group_contacts cs ({}, no_contacts))))"
    and p: "v \<notin> set (g_phone (snd (group_contacts cs ({}, no_contacts))))"
    by (auto simp: grouped_whatsapp grouped_phone)
  from parse_contact_results_single [of v cs q] w p
  show "\<exists>r. parse_contact_results cs q = [r]
             \<and> v \<in> set (whatsapp_numbers r) \<and> v \<notin> set (phone_numbers r)"
    by auto
next
  assume a: "(\<exists>c \<in> set cs. cvalue c = v) \<and> (\<forall>c \<in> set cs. cvalue c = v \<longrightarrow> ctype c = ''phone'')
        \<and> \<not> startswith v ''+62''"
  then obtain c where c: "find (\<lambda>c. cvalue c = v) cs = Some c" "c \<in> set cs" "cvalue c = v"
    using find_value [of cs v] by blast
  with a have p: "v \<in> set (g_phone (snd (group_contacts cs ({}, no_contacts))))"
    and w: "v \<notin> set (g_whatsapp (snd (group_contacts cs ({}, no_contacts))))"
    by (auto simp: grouped_whatsapp grouped_phone)
  from parse_contact_results_single [of v cs q] w p
  show "\<exists>r. parse_contact_results cs q = [r]
             \<and> v \<in> set (phone_numbers r) \<and> v \<notin> set (whatsapp_numbers r)"
    by auto
next
  assume a: "(\<exists>c \<in> set cs. cvalue c = v)
        \<and> (\<forall>c \<in> set cs. cvalue c = v \<longrightarrow>
              ctype c = ''whatsapp'' \<or> (ctype c = ''phone'' \<and> startswith v ''+62''))"
  then obtain c where c: "find (\<lambda>c. cvalue c = v) cs = Some c" "c \<in> set cs" "cvalue c = v"
    using find_value [of cs v] by blast
  with a have w: "v \<in> set (g_whatsapp (snd (group_contacts cs ({}, no_contacts))))"
    and p: "v \<notin> set (g_phone (snd (group_contacts cs ({}, no_contacts))))"
    by (auto simp: grouped_whatsapp grouped_phone)
  from parse_contact_results_single [of v cs q] w p
  show "\<exists>r. parse_contact_results cs q = [r]
             \<and> v \<in> set (whatsapp_numbers r) \<and> v \<notin> set (phone_numbers r)"
    by auto
qed

theorem parse_contact_results_buckets_witness:
  "parse_contact_results found_contacts ''acme''
   = [\<lparr>r_query = ''acme'', whatsapp_numbers = [''+6281234567890'', ''+6281111111111''],
       phone_numbers = [''+14155552671''], email_addresses = [], social_media = [],
       total_contacts_found = 3\<rparr>]
   \<and> ''+6281234567890'' \<notin> set [''+14155552671'']
   \<and> ''+14155552671'' \<notin> set [''+6281234567890'', ''+6281111111111'']
   \<and> ''+6281111111111'' \<notin> set [''+14155552671'']"
proof -
  have r: "parse_contact_results found_contacts ''acme''
       = [\<lparr>r_query = ''acme'', whatsapp_numbers = [''+6281234567890'', ''+6281111111111''],
           phone_numbers = [''+14155552671''], email_addresses = [], social_media = [],
           total_contacts_found = 3\<rparr>]"
    by (simp add: parse_contact_results_def found_contacts_def add_to_bucket_def no_contacts_def
        startswith_def)
  have h1: "(\<exists>c \<in> set found_contacts. cvalue c = ''+14155552671'')
        \<and> (\<forall>c \<in> set found_contacts. cvalue c = ''+14155552671'' \<longrightarrow> ctype c = ''phone'')
        \<and> \<not> startswith ''+14155552671'' ''+62''"
    by (simp add: found_contacts_def startswith_def)
  have h2: "(\<exists>c \<in> set found_contacts. cvalue c = ''+6281234567890'')
        \<and> (\<forall>c \<in> set found_contacts. cvalue c = ''+6281234567890'' \<longrightarrow>
              ctype c = ''whatsapp'' \<or> (ctype c = ''phone'' \<and> startswith ''+6281234567890'' ''+62''))"
    by (simp add: found_contacts_def startswith_def)
  have h3: "(\<exists>c \<in> set found_contacts. cvalue c = ''+6281111111111'')
        \<and> (\<forall>c \<in> set found_contacts. cvalue c = ''+6281111111111'' \<longrightarrow>
              ctype c = ''whatsapp'' \<or> (ctype c = ''phone'' \<and> startswith ''+6281111111111'' ''+62''))"
    by (simp add: found_contacts_def startswith_def)
  from parse_contact_results_buckets [of found_contacts "''acme''" "''+14155552671''"] h1 r
  have "''+14155552671'' \<notin> set [''+6281234567890'', ''+6281111111111'']"
    by auto
  moreover from parse_contact_results_buckets [of found_contacts "''acme''" "''+6281234567890''"] h2 r
  have "''+6281234567890'' \<notin> set [''+14155552671'']"
    by auto
  moreover from parse_contact_results_buckets [of found_contacts "''acme''" "''+6281111111111''"] h3 r
  have "''+6281111111111'' \<notin> set [''+14155552671'']"
    by auto
  ultimately show ?thesis
    using r by blast
qed

section \<open>Properties of the validators\<close>

lemma startswith_chars: "startswith s p \<Longrightarrow> set p \<subseteq> set s"
proof -
  assume "startswith s p"
  then have "p = take (length p) s"
    by (simp add: startswith_def)
  then have "set p = set (take (length p) s)"
    by simp
  then show ?thesis
    using set_take_subset [of "length p" s] by simp
qed

lemma only_plus_format:
  assumes "\<forall>c \<in> set s. c = CHR ''+''"
  shows "indonesian_format s = s"
proof (cases s)
  case Nil
  then show ?thesis
    by (simp add: indonesian_format_def startswith_def)
next
  case (Cons c cs)
  with assms have "startswith s ''+''"
    by (simp add: startswith_def)
  then show ?thesis
    by (rule plus_start_format)
qed

text \<open>A string without a digit is not a phone number.\<close>

lemma clean_phone_number_no_digit:
  assumes "\<not> list_ex re_digit phone"
  shows "clean_phone_number phone = None"
proof -
  let ?s = "strip_non_phone phone"
  have plus: "\<forall>c \<in> set ?s. c = CHR ''+''"
    using assms by (auto simp: strip_non_phone_def list_ex_iff)
  then have f: "indonesian_format ?s = ?s"
    by (rule only_plus_format)
  have "\<not> startswith ?s ''+62''"
  proof
    assume "startswith ?s ''+62''"
    then have "CHR ''6'' \<in> set ?s"
      using startswith_chars [of ?s "''+62''"] by simp
    with plus show False by auto
  qed
  with f show ?thesis
    by (simp add: clean_phone_number_def)
qed

lemma validate_phone_number_returns:
  "\<exists>b. validate_phone_number parse is_valid_number phone = Inr b"
  by (cases "validate_phone_number_try parse is_valid_number phone")
     (auto simp: validate_phone_number_def)

lemma validate_email_address_returns:
  "\<exists>b. validate_email_address validate_email email = Inr b"
  by (cases "validate_email_address_try validate_email email")
     (auto simp: validate_email_address_def)

text \<open>
  C10. For every string, \<open>clean_phone_number\<close>, \<open>validate_phone_number\<close> and
  \<open>validate_email_address\<close> return a value and raise nothing, whatever the libraries
  return or raise: \<open>None\<close> for a phone that cannot be normalized (the empty string, a
  string without a digit), \<open>False\<close> for a phone that is not normalized and for an email
  that does not match the pattern or that the library rejects with any exception.
\<close>

theorem validators_total:
  "(\<exists>b. validate_phone_number parse is_valid_number phone = Inr b)
   \<and> (\<exists>b. validate_email_address validate_email email = Inr b)
   \<and> clean_phone_number '''' = None
   \<and> (\<not> list_ex re_digit phone \<longrightarrow> clean_phone_number phone = None)
   \<and> (clean_phone_number phone = None
        \<longrightarrow> validate_phone_number parse is_valid_number phone = Inr False)
   \<and> (email = '''' \<or> \<not> re_match_email email
        \<longrightarrow> validate_email_address validate_email email = Inr False)
   \<and> ((\<exists>e. validate_email email = Inl e)
        \<longrightarrow> validate_email_address validate_email email = Inr False)"
proof (intro conjI impI)
  show "\<exists>b. validate_phone_number parse is_valid_number phone = Inr b"
    by (rule validate_phone_number_returns)
  show "\<exists>b. validate_email_address validate_email email = Inr b"
    by (rule validate_email_address_returns)
  show "clean_phone_number '''' = None"
    by (simp add: clean_phone_number_def)
next
  assume "\<not> list_ex re_digit phone"
  then show "clean_phone_number phone = None"
    by (rule clean_phone_number_no_digit)
next
  assume "clean_phone_number phone = None"
  then show "validate_phone_number parse is_valid_number phone = Inr False"
    by (simp add: validate_phone_number_def validate_phone_number_try_def)
next
  assume "email = '''' \<or> \<not> re_match_email email"
  then show "validate_email_address validate_email email = Inr False"
    by (auto simp: validate_email_address_def validate_email_address_try_def)
next
  assume "\<exists>e. validate_email email = Inl e"
  then show "validate_email_address validate_email email = Inr False"
    by (auto simp: validate_email_address_def validate_email_address_try_def)
qed

theorem validators_total_witness:
  "clean_phone_number ''call us'' = None
   \<and> clean_phone_number ''12345'' = None
   \<and> validate_phone_number (\<lambda>number region. Inr ()) (\<lambda>parsed. Inr True) ''12345'' = Inr False
   \<and> validate_phone_number (\<lambda>number region. Inl OtherException) (\<lambda>parsed :: unit. Inr True)
        ''081234567890'' = Inr False
   \<and> validate_phone_number (\<lambda>number region. Inl NumberParseException) (\<lambda>parsed :: unit. Inr False)
        ''081234567890'' = Inr True
   \<and> validate_email_address (\<lambda>email. Inr ()) ''not-an-email'' = Inr False
   \<and> validate_email_address (\<lambda>email. Inl OtherException :: exn + unit) ''a@acme.id'' = Inr False
   \<and> validate_email_address (\<lambda>email. Inr ()) ''a@acme.id'' = Inr True"
proof -
  have d: "\<not> list_ex re_digit ''call us''"
    by (simp add: re_digit_def)
  have c: "clean_phone_number ''12345'' = None"
    by (simp add: clean_phone_number_def strip_non_phone_def indonesian_format_def
        startswith_def re_digit_def)
  have m: "\<not> re_match_email ''not-an-email''"
    by code_simp
  have e: "\<exists>e. (\<lambda>email. Inl OtherException :: exn + unit) ''a@acme.id'' = Inl e"
    by simp
  have o: "validate_phone_number (\<lambda>number region. Inl OtherException) (\<lambda>parsed :: unit. Inr True)
        ''081234567890'' = Inr False"
    by code_simp
  have p: "validate_phone_number (\<lambda>number region. Inl NumberParseException) (\<lambda>parsed :: unit. Inr False)
        ''081234567890'' = Inr True"
    by code_simp
  have a: "validate_email_address (\<lambda>email. Inr ()) ''a@acme.id'' = Inr True"
    by code_simp
  from validators_total [of "\<lambda>number region. Inr ()" "\<lambda>parsed. Inr True" "''call us''"
      "\<lambda>email. Inr ()" "''not-an-email''"] d
  have "clean_phone_number ''call us'' = None"
    by blast
  moreover from validators_total [of "\<lambda>number region. Inr ()" "\<lambda>parsed. Inr True" "''12345''"
      "\<lambda>email. Inr ()" "''not-an-email''"] c m
  have "validate_phone_number (\<lambda>number region. Inr ()) (\<lambda>parsed. Inr True) ''12345'' = Inr False"
    and "validate_email_address (\<lambda>email. Inr ()) ''not-an-email'' = Inr False"
    by blast+
  moreover from validators_total [of "\<lambda>number region. Inr ()" "\<lambda>parsed. Inr True" "''12345''"
      "\<lambda>email. Inl OtherException :: exn + unit" "''a@acme.id''"] e
  have "validate_email_address (\<lambda>email. Inl OtherException :: exn + unit) ''a@acme.id'' = Inr False"
    by blast
  ultimately show ?thesis
    using c o p a by blast
qed

end
